theory Spec2Isabelle
  imports Complex_Main "HOL-Library.AList"
begin

section \<open>Data model of \<open>controllers.py\<close>\<close>

text \<open>
  The controller node drives a Poppy Ergo Jr through the pypot SDK and talks to ROS
  through rospy. Neither library is part of the repository. A motor is modelled by the
  attributes the controller reads and writes, the robot by its list \<open>motors\<close>. The SDK's
  \<open>goto_position\<close> is a parameter of the model: a call either returns or raises, and in
  both cases it may have changed the motors. Seconds and joint positions are Python
  floats; they are modelled by exact reals, so rounding is not part of the model.
\<close>

record motor =
  name :: string
  goal_position :: real
  moving_speed :: real
  compliant :: bool

text \<open>A Python \<open>dict\<close> from joint names to positions, in insertion order.\<close>

type_synonym pydict = "(string \<times> real) list"

text \<open>
  \<open>dict(zip(names, positions))\<close>: \<open>zip\<close> stops at the shorter list, and a key that
  occurs again keeps its place and takes the later value.
\<close>

definition dict_zip :: "string list \<Rightarrow> real list \<Rightarrow> pydict" where
  "dict_zip ks vs = fold (\<lambda>(k, v) d. AList.update k v d) (zip ks vs) []"

datatype exn =
    KeyError string
  | IndexError
  | IOError
  | ValueError
  | ZeroDivisionError
  | TypeError
  | AttributeError string
  | ROSInterruptException
  | OtherError

text \<open>
  The messages the node logs. Each is the text of a log call whose message was built
  with \<open>.format\<close> before the call, or is a constant string.
\<close>

datatype logmsg =
    Teleporting pydict
  | Reaching pydict real
  | Executing nat
  | Trajectory_aborted
  | Trajectory_ended
  | Now_compliant bool

text \<open>
  What a handler does to the outside, in the order it does it. \<open>Goto_position\<close> and
  \<open>Sleep\<close> record that the call was made, with its arguments, whether or not it then
  raised. \<open>Log_handler_error\<close> is the report a logging handler prints in place of a
  message it could not render.
\<close>

datatype event =
    Loginfo logmsg
  | Logwarn logmsg
  | Log_handler_error
  | Goto_position pydict real
  | Sleep real

text \<open>
  \<open>goto_position(targets, duration)\<close> on the motors: the exception it raised, if any,
  and the motors as it left them.
\<close>

type_synonym sdk_goto = "pydict \<Rightarrow> real \<Rightarrow> motor list \<Rightarrow> exn option \<times> motor list"

section \<open>\<open>reset_max_speed\<close> and the \<open>set_compliant\<close> service\<close>

definition reset_max_speed :: "motor list \<Rightarrow> motor list" where
  "reset_max_speed ms = map (\<lambda>m. m\<lparr>moving_speed := 100\<rparr>) ms"

datatype set_compliant_response = SetCompliantResponse

definition cb_set_compliant ::
  "bool \<Rightarrow> motor list \<Rightarrow> event list \<times> set_compliant_response \<times> motor list" where
  "cb_set_compliant b ms =
     ([Loginfo (Now_compliant b)], SetCompliantResponse, map (\<lambda>m. m\<lparr>compliant := b\<rparr>) ms)"

section \<open>The \<open>reach\<close> service\<close>

record reach_request =
  target_name :: "string list"
  target_position :: "real list"
  duration :: real

datatype reach_response = ReachTargetResponse

definition joint_whitelist :: "string list" where
  "joint_whitelist = [''m1'', ''m2'', ''m3'', ''m4'', ''m5'', ''m6'']"

text \<open>\<open>list.index\<close>: the first position of the element, \<open>None\<close> for \<open>ValueError\<close>.\<close>

fun list_index :: "'a list \<Rightarrow> 'a \<Rightarrow> nat option" where
  "list_index [] x = None"
| "list_index (y # ys) x =
     (if y = x then Some 0 else map_option Suc (list_index ys x))"

text \<open>
  The loop of the teleport branch over \<open>request.target.name\<close>. The right-hand side
  \<open>target[motor]\<close> is evaluated before \<open>self.ergo.motors[index]\<close>, so a missing key
  raises before an index out of range does; what was assigned before stays assigned.
\<close>

fun teleport :: "pydict \<Rightarrow> string list \<Rightarrow> motor list \<Rightarrow> exn option \<times> motor list" where
  "teleport target [] ms = (None, ms)"
| "teleport target (m # rest) ms =
     (case list_index joint_whitelist m of
        None \<Rightarrow> teleport target rest ms
      | Some index \<Rightarrow>
          (case map_of target m of
             None \<Rightarrow> (Some (KeyError m), ms)
           | Some v \<Rightarrow>
               if index < length ms
               then teleport target rest (ms[index := (ms ! index)\<lparr>goal_position := v\<rparr>])
               else (Some IndexError, ms)))"

definition cb_reach ::
  "sdk_goto \<Rightarrow> reach_request \<Rightarrow> motor list \<Rightarrow> event list \<times> (exn + reach_response) \<times> motor list" where
  "cb_reach goto request ms =
     (let target = dict_zip (target_name request) (target_position request);
          d = duration request;
          log = (if d \<le> 0 then Loginfo (Teleporting target) else Loginfo (Reaching target d))
      in if d \<le> 0 then
           (case teleport target (target_name request) ms of
              (Some e, ms') \<Rightarrow> ([log], Inl e, ms')
            | (None, ms') \<Rightarrow> ([log], Inr ReachTargetResponse, ms'))
         else
           (case goto target d ms of
              (Some e, ms') \<Rightarrow> ([log, Goto_position target d], Inl e, ms')
            | (None, ms') \<Rightarrow>
                ([log, Goto_position target d], Inr ReachTargetResponse, reset_max_speed ms')))"

section \<open>The trajectory executor\<close>

record point =
  positions :: "real list"
  time_from_start :: real

record trajectory =
  joint_names :: "string list"
  points :: "point list"

text \<open>
  The configuration loaded from \<open>config/ergo_jr.json\<close>: a dictionary, read with
  \<open>self.params[key]\<close>, which raises \<open>KeyError\<close> for a key the file does not have.
\<close>

type_synonym params = "string \<rightharpoonup> real"

text \<open>
  What the ROS runtime answers during one run of \<open>execute\<close>: \<open>is_shutdown i\<close> is the
  result of \<open>rospy.is_shutdown()\<close> at the start of the iteration with \<open>point_id = i\<close>,
  and \<open>sleep_interrupted i\<close> tells whether the \<open>rospy.sleep\<close> of that iteration, if it
  is reached, raises \<open>ROSInterruptException\<close>. \<open>logging_raises\<close> tells what the logging
  handlers do with a record whose message cannot be rendered: let the error reach the
  caller of the log function (handlers that render the record outside any \<open>try\<close>), or
  catch it and print a report (the stock handlers of Python's \<open>logging\<close>).
\<close>

record env =
  is_shutdown :: "nat \<Rightarrow> bool"
  sleep_interrupted :: "nat \<Rightarrow> bool"
  logging_raises :: bool

text \<open>
  The variables of the loop when it is left: what it did, the exception that left it
  (if one did), the local \<open>time\<close>, and the motors.
\<close>

record loop_state =
  events :: "event list"
  raised :: "exn option"
  elapsed :: real
  robot :: "motor list"

text \<open>
  The \<open>for\<close> loop of \<open>execute\<close> from the iteration \<open>point_id = i\<close> on.

  The skip branch calls \<open>rospy.logwarn(msg, point_id + 1, len(trajectory.points))\<close> with
  a message that has \<open>{}\<close> placeholders and no \<open>%\<close> directive. The two numbers are
  logging arguments, so the text is rendered as \<open>msg % args\<close>, which raises \<open>TypeError\<close>
  (not all arguments converted): no warning text is ever produced. With
  \<open>logging_raises\<close> the error leaves the loop, and \<open>execute\<close> does not catch it;
  otherwise the handler reports it and the loop goes on with the next waypoint.

  The arguments of \<open>goto_position\<close> are evaluated before the call, so a missing
  \<open>time_margin\<close> raises before any command is sent. An exception of \<open>goto_position\<close>
  leaves the loop before the wait.
\<close>

fun execute_points ::
  "sdk_goto \<Rightarrow> env \<Rightarrow> params \<Rightarrow> string list \<Rightarrow> nat \<Rightarrow> point list \<Rightarrow> real \<Rightarrow> motor list
     \<Rightarrow> loop_state" where
  "execute_points goto env ps jn i [] time ms =
     \<lparr>events = [], raised = None, elapsed = time, robot = ms\<rparr>"
| "execute_points goto env ps jn i (p # rest) time ms =
     (if is_shutdown env i then \<lparr>events = [], raised = None, elapsed = time, robot = ms\<rparr>
      else
        let tfs = time_from_start p; duration = tfs - time in
        if duration < 0 then
          (if logging_raises env
           then \<lparr>events = [], raised = Some TypeError, elapsed = time, robot = ms\<rparr>
           else
             (let r = execute_points goto env ps jn (Suc i) rest time ms
              in r\<lparr>events := Log_handler_error # events r\<rparr>))
        else
          (case ps ''time_margin'' of
             None \<Rightarrow>
               \<lparr>events = [], raised = Some (KeyError ''time_margin''), elapsed = time, robot = ms\<rparr>
           | Some time_margin \<Rightarrow>
               let target = dict_zip jn (positions p);
                   command = Goto_position target (time_margin + duration)
               in case goto target (time_margin + duration) ms of
                    (Some e, ms') \<Rightarrow>
                      \<lparr>events = [command], raised = Some e, elapsed = time, robot = ms'\<rparr>
                  | (None, ms') \<Rightarrow>
                      if sleep_interrupted env i
                      then \<lparr>events = [command, Sleep (duration - 0.001)],
                            raised = Some ROSInterruptException, elapsed = time, robot = ms'\<rparr>
                      else
                        (let r = execute_points goto env ps jn (Suc i) rest tfs ms'
                         in r\<lparr>events := [command, Sleep (duration - 0.001)] @ events r\<rparr>)))"

text \<open>
  \<open>execute\<close>: the loop inside \<open>try\<close>. \<open>ROSInterruptException\<close> is caught and logged; the
  \<open>else\<close> clause runs whenever the \<open>try\<close> body ends without an exception, also when the
  loop was left by \<open>break\<close>; any other exception leaves \<open>execute\<close>.
\<close>

definition execute :: "sdk_goto \<Rightarrow> env \<Rightarrow> params \<Rightarrow> trajectory \<Rightarrow> motor list \<Rightarrow> loop_state" where
  "execute goto env ps traj ms =
     (let n = length (points traj);
          r = execute_points goto env ps (joint_names traj) 0 (points traj) 0 ms
      in case raised r of
           None \<Rightarrow> r\<lparr>events := Loginfo (Executing n) # events r @ [Loginfo Trajectory_ended]\<rparr>
         | Some e \<Rightarrow>
             if e = ROSInterruptException
             then r\<lparr>events := Loginfo (Executing n) # events r @ [Logwarn Trajectory_aborted],
                    raised := None\<rparr>
             else r\<lparr>events := Loginfo (Executing n) # events r\<rparr>)"

text \<open>
  \<open>_cb_execute\<close> starts a daemon thread that will run \<open>execute\<close> on the trajectory and
  returns at once; the thread is modelled by the trajectory it was given.
\<close>

datatype execute_response = ExecuteTrajectoryResponse

datatype thread = Thread_execute trajectory

definition cb_execute :: "trajectory \<Rightarrow> thread \<times> execute_response" where
  "cb_execute traj = (Thread_execute traj, ExecuteTrajectoryResponse)"

text \<open>The commands sent to the robot and the waits asked for, read off a run.\<close>

fun gotos :: "event list \<Rightarrow> (pydict \<times> real) list" where
  "gotos [] = []"
| "gotos (Goto_position target d # evs) = (target, d) # gotos evs"
| "gotos (e # evs) = gotos evs"

fun sleeps :: "event list \<Rightarrow> real list" where
  "sleeps [] = []"
| "sleeps (Sleep d # evs) = d # sleeps evs"
| "sleeps (e # evs) = sleeps evs"

text \<open>
  What a run without interruption is expected to do on waypoints in chronological
  order, starting at elapsed time \<open>t\<close>: for each waypoint in list order one command
  lasting the time to the waypoint plus the margin, then one wait of that time less
  one millisecond.
\<close>

fun commands :: "real \<Rightarrow> string list \<Rightarrow> real \<Rightarrow> point list \<Rightarrow> event list" where
  "commands tm jn t [] = []"
| "commands tm jn t (p # rest) =
     Goto_position (dict_zip jn (positions p)) (tm + (time_from_start p - t))
       # Sleep (time_from_start p - t - 0.001)
       # commands tm jn (time_from_start p) rest"

text \<open>
  Every \<open>goto_position\<close> call of such a run returns: the call for the first waypoint on
  the motors \<open>ms\<close>, the call for the second on the motors the first call left, and so on.
\<close>

fun gotos_return :: "sdk_goto \<Rightarrow> real \<Rightarrow> string list \<Rightarrow> real \<Rightarrow> point list \<Rightarrow> motor list \<Rightarrow> bool" where
  "gotos_return goto tm jn t [] ms = True"
| "gotos_return goto tm jn t (p # rest) ms =
     (case goto (dict_zip jn (positions p)) (tm + (time_from_start p - t)) ms of
        (Some e, ms') \<Rightarrow> False
      | (None, ms') \<Rightarrow> gotos_return goto tm jn (time_from_start p) rest ms')"

section \<open>Start-up\<close>

text \<open>
  What the node finds when it starts: the file \<open>config/ergo_jr.json\<close> (missing, not
  JSON, JSON that is not an object, or a dictionary), the ROS parameters \<open>description\<close> and \<open>description_file\<close>
  (\<open>None\<close> when \<open>rospy.get_param\<close> raises \<open>KeyError\<close>), and what the constructor
  \<open>PoppyErgoJr(...)\<close> does: raise, or give a robot. The values of the dictionary are
  taken to be numbers.
\<close>

datatype config_file = No_file | Not_json | Not_object | Json params

record startup =
  config :: config_file
  description :: "string option"
  description_file :: "string option"
  adapter :: "exn + motor list"

text \<open>
  The process after start-up: left through \<open>exit(code)\<close>, ended by an exception
  nobody caught, or serving with its configuration and robot.
\<close>

datatype process = Exited int | Died exn | Serving params "motor list"

text \<open>
  \<open>__init__\<close>: \<open>open\<close> raises \<open>IOError\<close> on a missing file, \<open>json.load\<close> raises
  \<open>ValueError\<close> on a file that is not JSON, \<open>self.params['publish_rate']\<close> raises
  \<open>TypeError\<close> on a value that is not an object and \<open>KeyError\<close> on an object without
  the key, and \<open>rospy.Rate(hz)\<close> divides by \<open>hz\<close>. Nothing here reads \<open>time_margin\<close>.
\<close>

definition init :: "startup \<Rightarrow> exn + params" where
  "init st =
     (case config st of
        No_file \<Rightarrow> Inl IOError
      | Not_json \<Rightarrow> Inl ValueError
      | Not_object \<Rightarrow> Inl TypeError
      | Json ps \<Rightarrow>
          (case ps ''publish_rate'' of
             None \<Rightarrow> Inl (KeyError ''publish_rate'')
           | Some rate \<Rightarrow> if rate = 0 then Inl ZeroDivisionError else Inr ps))"

text \<open>
  \<open>run\<close> up to the point where the services are registered. Both \<open>exit(-1)\<close> calls
  are outside any handler that would catch \<open>SystemExit\<close>, and \<open>finally\<close> only closes a
  robot that exists. \<open>power_up\<close> belongs to the SDK and is not modelled; the two
  assignments after it are.
\<close>

definition run :: "startup \<Rightarrow> params \<Rightarrow> process" where
  "run st ps =
     (case description st of
        None \<Rightarrow> Exited (- 1)
      | Some robot_description \<Rightarrow>
          (case description_file st of
             None \<Rightarrow> Exited (- 1)
           | Some config_file \<Rightarrow>
               (case adapter st of
                  Inl e \<Rightarrow> if e = IOError then Exited (- 1) else Died e
                | Inr ms \<Rightarrow> Serving ps (reset_max_speed (map (\<lambda>m. m\<lparr>compliant := False\<rparr>) ms)))))"

definition main :: "startup \<Rightarrow> process" where
  "main st = (case init st of Inl e \<Rightarrow> Died e | Inr ps \<Rightarrow> run st ps)"

text \<open>
  The status the operating system sees: \<open>exit(code)\<close> gives the code modulo 256, an
  uncaught exception gives 1, and a serving node has not exited.
\<close>

fun exit_status :: "process \<Rightarrow> int option" where
  "exit_status (Exited code) = Some (code mod 256)"
| "exit_status (Died e) = Some 1"
| "exit_status (Serving ps ms) = None"

section \<open>Example robots, SDK behaviour and runtime answers\<close>

definition make_motor :: "string \<Rightarrow> motor" where
  "make_motor n = \<lparr>name = n, goal_position = 0, moving_speed = 100, compliant = False\<rparr>"

definition ergo_jr :: "motor list" where
  "ergo_jr = map make_motor joint_whitelist"

text \<open>A robot whose motor list has \<open>m2\<close> before \<open>m1\<close>.\<close>

definition ergo_swapped :: "motor list" where
  "ergo_swapped = map make_motor [''m2'', ''m1'', ''m3'', ''m4'', ''m5'', ''m6'']"

text \<open>
  An SDK whose \<open>goto_position\<close> goes through the dictionary in order: it looks the motor
  up by name, raises \<open>AttributeError\<close> if the robot has none of that name, and otherwise
  sets its goal and throttles its speed to cover the distance in the given time. The
  motors already commanded stay commanded when a later name raises.
\<close>

fun goto_throttling :: sdk_goto where
  "goto_throttling [] d ms = (None, ms)"
| "goto_throttling ((n, v) # target) d ms =
     (case list_index (map name ms) n of
        None \<Rightarrow> (Some (AttributeError n), ms)
      | Some i \<Rightarrow>
          goto_throttling target d
            (ms[i := (ms ! i)\<lparr>goal_position := v,
                              moving_speed := \<bar>v - goal_position (ms ! i)\<bar> / d\<rparr>]))"

definition env_running :: env where
  "env_running =
     \<lparr>is_shutdown = (\<lambda>i. False), sleep_interrupted = (\<lambda>i. False), logging_raises = True\<rparr>"

definition env_stock_logging :: env where
  "env_stock_logging =
     \<lparr>is_shutdown = (\<lambda>i. False), sleep_interrupted = (\<lambda>i. False), logging_raises = False\<rparr>"

definition env_shut_down :: env where
  "env_shut_down =
     \<lparr>is_shutdown = (\<lambda>i. True), sleep_interrupted = (\<lambda>i. True), logging_raises = True\<rparr>"

definition env_interrupted_first :: env where
  "env_interrupted_first =
     \<lparr>is_shutdown = (\<lambda>i. 0 < i), sleep_interrupted = (\<lambda>i. i = 0), logging_raises = True\<rparr>"

definition params_full :: params where
  "params_full = [''publish_rate'' \<mapsto> 10, ''time_margin'' \<mapsto> 0.5]"

definition params_no_margin :: params where
  "params_no_margin = [''publish_rate'' \<mapsto> 10]"

definition joints12 :: "string list" where
  "joints12 = [''m1'', ''m2'']"

definition point_a :: point where
  "point_a = \<lparr>positions = [10, 20], time_from_start = 1\<rparr>"

definition point_b :: point where
  "point_b = \<lparr>positions = [30, 40], time_from_start = 3\<rparr>"

definition point_c :: point where
  "point_c = \<lparr>positions = [50, 60], time_from_start = 5\<rparr>"

definition point_early :: point where
  "point_early = \<lparr>positions = [5, 5], time_from_start = - 1\<rparr>"

definition trajectory_ab :: trajectory where
  "trajectory_ab = \<lparr>joint_names = joints12, points = [point_a, point_b]\<rparr>"

definition trajectory_early :: trajectory where
  "trajectory_early = \<lparr>joint_names = joints12, points = [point_early, point_b]\<rparr>"

text \<open>A trajectory whose second waypoint lies before the first.\<close>

definition trajectory_back :: trajectory where
  "trajectory_back = \<lparr>joint_names = joints12, points = [point_b, point_a, point_c]\<rparr>"

text \<open>A trajectory that names a joint the robot does not have.\<close>

definition trajectory_unknown :: trajectory where
  "trajectory_unknown = \<lparr>joint_names = [''m1'', ''zz''], points = [point_a, point_b]\<rparr>"

definition startup_no_file :: startup where
  "startup_no_file =
     \<lparr>config = No_file, description = Some ''ergo'', description_file = Some ''ergo.json'',
      adapter = Inr ergo_jr\<rparr>"

definition startup_no_margin :: startup where
  "startup_no_margin =
     \<lparr>config = Json params_no_margin, description = Some ''ergo'',
      description_file = Some ''ergo.json'', adapter = Inr ergo_jr\<rparr>"

definition request_teleport :: reach_request where
  "request_teleport =
     \<lparr>target_name = [''m1'', ''zz'', ''m1''], target_position = [10, 3, 7], duration = 0\<rparr>"

definition request_no_position :: reach_request where
  "request_no_position = \<lparr>target_name = [''m1''], target_position = [], duration = 0\<rparr>"

definition request_m1 :: reach_request where
  "request_m1 = \<lparr>target_name = [''m1''], target_position = [10], duration = 0\<rparr>"

definition request_goto :: reach_request where
  "request_goto =
     \<lparr>target_name = [''m1'', ''zz'', ''m1''], target_position = [10, 3, 7], duration = 2\<rparr>"

definition request_goto_known :: reach_request where
  "request_goto_known =
     \<lparr>target_name = [''m1'', ''m2''], target_position = [10, 20], duration = 2\<rparr>"

section \<open>Facts about the whitelist, dictionaries and the teleport loop\<close>

lemma list_index_Some: "list_index xs x = Some i \<Longrightarrow> i < length xs \<and> xs ! i = x"
  by (induction xs arbitrary: i) (auto split: if_splits)

lemma list_index_None: "list_index xs x = None \<longleftrightarrow> x \<notin> set xs"
  by (induction xs) auto

lemma length_joint_whitelist: "length joint_whitelist = 6"
  by (simp add: joint_whitelist_def)

lemma map_of_fold_update:
  "map_of (fold (\<lambda>(k, v) d. AList.update k v d) kvs al) k =
     (case map_of (rev kvs) k of None \<Rightarrow> map_of al k | Some v \<Rightarrow> Some v)"
proof (induction kvs arbitrary: al)
  case Nil
  show ?case by simp
next
  case (Cons kv kvs)
  obtain a b where kv: "kv = (a, b)" by (cases kv)
  show ?case
    by (simp add: kv Cons.IH update_conv' map_add_def split: option.splits)
qed

lemma map_of_dict_zip: "map_of (dict_zip ks vs) k = map_of (rev (zip ks vs)) k"
  by (simp add: dict_zip_def map_of_fold_update split: option.splits)

lemma zip_keys:
  "length ks \<le> length vs \<Longrightarrow> k \<in> set ks \<Longrightarrow> k \<in> fst ` set (zip ks vs)"
proof (induction ks arbitrary: vs)
  case Nil
  then show ?case by simp
next
  case (Cons a ks)
  then obtain b vs' where vs: "vs = b # vs'" by (cases vs) auto
  with Cons show ?case by auto
qed

lemma dict_zip_has_key:
  assumes "length ks \<le> length vs" and "k \<in> set ks"
  shows "\<exists>v. map_of (dict_zip ks vs) k = Some v"
proof -
  have "k \<in> fst ` set (rev (zip ks vs))"
    using zip_keys [OF assms] by simp
  then have "map_of (rev (zip ks vs)) k \<noteq> None"
    by (simp only: map_of_eq_None_iff not_not)
  then show ?thesis
    by (simp add: map_of_dict_zip)
qed

lemma teleport_frame:
  "teleport target names ms = (e, ms') \<Longrightarrow>
     length ms' = length ms \<and>
     map moving_speed ms' = map moving_speed ms \<and>
     map name ms' = map name ms \<and>
     map compliant ms' = map compliant ms \<and>
     (\<forall>i < length ms.
        (\<forall>m. list_index joint_whitelist m = Some i \<longrightarrow> map_of target m = None) \<longrightarrow> ms' ! i = ms ! i)"
proof (induction names arbitrary: ms)
  case Nil
  then show ?case by simp
next
  case (Cons m rest)
  show ?case
  proof (cases "list_index joint_whitelist m")
    case None
    with Cons.prems have "teleport target rest ms = (e, ms')" by simp
    then show ?thesis by (rule Cons.IH)
  next
    case (Some index)
    note idx = Some
    show ?thesis
    proof (cases "map_of target m")
      case None
      with idx Cons.prems have "ms' = ms" by simp
      then show ?thesis by simp
    next
      case (Some v)
      note v = Some
      show ?thesis
      proof (cases "index < length ms")
        case False
        with v idx Cons.prems have "ms' = ms" by simp
        then show ?thesis by simp
      next
        case True
        define ms1 where "ms1 = ms[index := (ms ! index)\<lparr>goal_position := v\<rparr>]"
        have run: "teleport target rest ms1 = (e, ms')"
          using Cons.prems v idx True by (simp add: ms1_def)
        note ih = Cons.IH [OF run]
        have len: "length ms1 = length ms" by (simp add: ms1_def)
        have a: "map moving_speed ms1 = map moving_speed ms"
          using True by (simp add: ms1_def map_update list_update_same_conv)
        have b: "map name ms1 = map name ms"
          using True by (simp add: ms1_def map_update list_update_same_conv)
        have c: "map compliant ms1 = map compliant ms"
          using True by (simp add: ms1_def map_update list_update_same_conv)
        have d: "ms' ! i = ms ! i"
          if i: "i < length ms"
            and un: "\<forall>m. list_index joint_whitelist m = Some i \<longrightarrow> map_of target m = None" for i
        proof -
          from un v idx have "i \<noteq> index" by auto
          then have "ms1 ! i = ms ! i" by (simp add: ms1_def)
          moreover from ih i un len have "ms' ! i = ms1 ! i" by simp
          ultimately show ?thesis by simp
        qed
        from ih len a b c have "length ms' = length ms"
          and "map moving_speed ms' = map moving_speed ms"
          and "map name ms' = map name ms"
          and "map compliant ms' = map compliant ms" by simp_all
        with d show ?thesis by blast
      qed
    qed
  qed
qed

lemma distinct_joint_whitelist: "distinct joint_whitelist"
  by (simp add: joint_whitelist_def)

lemma teleport_ok:
  assumes "\<forall>m \<in> set names. m \<in> set joint_whitelist \<longrightarrow> map_of target m \<noteq> None"
    and "6 \<le> length ms"
  shows "\<exists>ms'. teleport target names ms = (None, ms') \<and>
           (\<forall>i < 6. (joint_whitelist ! i \<in> set names \<longrightarrow>
                        map_of target (joint_whitelist ! i) = Some (goal_position (ms' ! i))) \<and>
                     (joint_whitelist ! i \<notin> set names \<longrightarrow> ms' ! i = ms ! i))"
  using assms
proof (induction names arbitrary: ms)
  case Nil
  then show ?case by simp
next
  case (Cons m rest)
  have keys: "\<forall>m \<in> set rest. m \<in> set joint_whitelist \<longrightarrow> map_of target m \<noteq> None"
    using Cons.prems(1) by simp
  show ?case
  proof (cases "list_index joint_whitelist m")
    case None
    then have out: "m \<notin> set joint_whitelist" by (simp add: list_index_None)
    from Cons.IH [OF keys Cons.prems(2)] obtain ms' where
      run: "teleport target rest ms = (None, ms')" and
      post: "\<forall>i < 6. (joint_whitelist ! i \<in> set rest \<longrightarrow>
                        map_of target (joint_whitelist ! i) = Some (goal_position (ms' ! i))) \<and>
                     (joint_whitelist ! i \<notin> set rest \<longrightarrow> ms' ! i = ms ! i)"
      by blast
    have neq: "joint_whitelist ! i \<noteq> m" if "i < 6" for i
      using out that nth_mem [of i joint_whitelist] by (auto simp: length_joint_whitelist)
    from run None have "teleport target (m # rest) ms = (None, ms')" by simp
    moreover from post neq have
      "\<forall>i < 6. (joint_whitelist ! i \<in> set (m # rest) \<longrightarrow>
                        map_of target (joint_whitelist ! i) = Some (goal_position (ms' ! i))) \<and>
                     (joint_whitelist ! i \<notin> set (m # rest) \<longrightarrow> ms' ! i = ms ! i)"
      by simp
    ultimately show ?thesis by blast
  next
    case (Some index)
    note idx = Some
    from list_index_Some [OF idx] have index6: "index < 6" and at: "joint_whitelist ! index = m"
      by (simp_all add: length_joint_whitelist)
    then have "m \<in> set joint_whitelist"
      using nth_mem [of index joint_whitelist] by (simp add: length_joint_whitelist)
    with Cons.prems(1) obtain v where v: "map_of target m = Some v" by auto
    define ms1 where "ms1 = ms[index := (ms ! index)\<lparr>goal_position := v\<rparr>]"
    have len1: "6 \<le> length ms1" using Cons.prems(2) by (simp add: ms1_def)
    have inr: "index < length ms" using index6 Cons.prems(2) by simp
    from Cons.IH [OF keys len1] obtain ms' where
      run: "teleport target rest ms1 = (None, ms')" and
      post: "\<forall>i < 6. (joint_whitelist ! i \<in> set rest \<longrightarrow>
                        map_of target (joint_whitelist ! i) = Some (goal_position (ms' ! i))) \<and>
                     (joint_whitelist ! i \<notin> set rest \<longrightarrow> ms' ! i = ms1 ! i)"
      by blast
    have step: "teleport target (m # rest) ms = (None, ms')"
      using run idx v inr by (simp add: ms1_def)
    have "(joint_whitelist ! i \<in> set (m # rest) \<longrightarrow>
              map_of target (joint_whitelist ! i) = Some (goal_position (ms' ! i))) \<and>
          (joint_whitelist ! i \<notin> set (m # rest) \<longrightarrow> ms' ! i = ms ! i)" if i: "i < 6" for i
    proof (cases "joint_whitelist ! i \<in> set rest")
      case True
      with post i show ?thesis by simp
    next
      case False
      with post i have same: "ms' ! i = ms1 ! i" by simp
      show ?thesis
      proof (cases "i = index")
        case True
        with same inr have "goal_position (ms' ! i) = v" by (simp add: ms1_def)
        with True at v show ?thesis by simp
      next
        case False
        have "(joint_whitelist ! i = joint_whitelist ! index) = (i = index)"
          using i index6 by (intro nth_eq_iff_index_eq [OF distinct_joint_whitelist])
            (simp_all add: length_joint_whitelist)
        with False at have "joint_whitelist ! i \<noteq> m" by auto
        moreover from False same have "ms' ! i = ms ! i" by (simp add: ms1_def)
        ultimately show ?thesis using \<open>joint_whitelist ! i \<notin> set rest\<close> by simp
      qed
    qed
    with step show ?thesis by blast
  qed
qed

lemma teleport_run_example:
  "cb_reach goto request_teleport ergo_jr =
     ([Loginfo (Teleporting [(''m1'', 7), (''zz'', 3)])], Inr ReachTargetResponse,
      (make_motor ''m1'')\<lparr>goal_position := 7\<rparr> # map make_motor [''m2'', ''m3'', ''m4'', ''m5'', ''m6''])"
  by (simp add: cb_reach_def request_teleport_def dict_zip_def ergo_jr_def joint_whitelist_def
        make_motor_def)

section \<open>The \<open>set_compliant\<close> service sets every motor\<close>

text \<open>
  C6. After \<open>_cb_set_compliant\<close> with flag \<open>b\<close> the robot has the same motors, the
  compliance flag of every one of them is \<open>b\<close>, and the handler returns its response
  whatever \<open>b\<close> is.
\<close>

theorem set_compliant_sets_all:
  "cb_set_compliant b ms = (evs, r, ms') \<Longrightarrow>
     r = SetCompliantResponse \<and> length ms' = length ms \<and>
     (\<forall>i < length ms. compliant (ms' ! i) = b \<and> name (ms' ! i) = name (ms ! i))"
  by (auto simp: cb_set_compliant_def)

theorem set_compliant_sets_all_witness:
  "cb_set_compliant True
     [\<lparr>name = ''m1'', goal_position = 0, moving_speed = 100, compliant = False\<rparr>,
      \<lparr>name = ''m2'', goal_position = 5, moving_speed = 40, compliant = True\<rparr>]
   = ([Loginfo (Now_compliant True)], SetCompliantResponse,
      [\<lparr>name = ''m1'', goal_position = 0, moving_speed = 100, compliant = True\<rparr>,
       \<lparr>name = ''m2'', goal_position = 5, moving_speed = 40, compliant = True\<rparr>])
   \<and> compliant
        ([\<lparr>name = ''m1'', goal_position = 0, moving_speed = 100, compliant = True\<rparr>,
          \<lparr>name = ''m2'', goal_position = 5, moving_speed = 40, compliant = True\<rparr>] ! 0) = True"
proof -
  have run: "cb_set_compliant True
     [\<lparr>name = ''m1'', goal_position = 0, moving_speed = 100, compliant = False\<rparr>,
      \<lparr>name = ''m2'', goal_position = 5, moving_speed = 40, compliant = True\<rparr>]
   = ([Loginfo (Now_compliant True)], SetCompliantResponse,
      [\<lparr>name = ''m1'', goal_position = 0, moving_speed = 100, compliant = True\<rparr>,
       \<lparr>name = ''m2'', goal_position = 5, moving_speed = 40, compliant = True\<rparr>])"
    by (simp add: cb_set_compliant_def)
  from set_compliant_sets_all [OF run] run show ?thesis by simp
qed

section \<open>The \<open>reach\<close> service with a duration that is not positive\<close>

text \<open>
  C4, as the code has it. For a \<open>reach\<close> request with duration \<open>\<le> 0\<close> in which every
  joint name comes with a position (the name list is no longer than the position list),
  on a robot whose motors are \<open>m1\<close> .. \<open>m6\<close> in this order: the handler logs, sends no
  command, and returns \<open>ReachTargetResponse\<close>; the motor of every whitelisted name in the
  request has its goal position set to the position the target dictionary holds for that
  name; every other motor is left as it was, so names outside the whitelist change
  nothing and raise nothing.
\<close>

theorem reach_teleport_sets_goals:
  assumes "duration request \<le> 0"
    and "length (target_name request) \<le> length (target_position request)"
    and "map name ms = joint_whitelist"
  shows "\<exists>ms'.
     cb_reach goto request ms =
       ([Loginfo (Teleporting (dict_zip (target_name request) (target_position request)))],
        Inr ReachTargetResponse, ms') \<and>
     map name ms' = joint_whitelist \<and>
     (\<forall>i < 6.
        (joint_whitelist ! i \<in> set (target_name request) \<longrightarrow>
           map_of (dict_zip (target_name request) (target_position request)) (joint_whitelist ! i)
             = Some (goal_position (ms' ! i))) \<and>
        (joint_whitelist ! i \<notin> set (target_name request) \<longrightarrow> ms' ! i = ms ! i))"
proof -
  let ?target = "dict_zip (target_name request) (target_position request)"
  have keys: "\<forall>m \<in> set (target_name request).
                m \<in> set joint_whitelist \<longrightarrow> map_of ?target m \<noteq> None"
    using dict_zip_has_key [OF assms(2)] by fastforce
  have "length ms = 6"
    using arg_cong [OF assms(3), of length] by (simp add: length_joint_whitelist)
  then have six: "6 \<le> length ms" by simp
  from teleport_ok [OF keys six] obtain ms' where
    run: "teleport ?target (target_name request) ms = (None, ms')" and
    post: "\<forall>i < 6. (joint_whitelist ! i \<in> set (target_name request) \<longrightarrow>
                        map_of ?target (joint_whitelist ! i) = Some (goal_position (ms' ! i))) \<and>
                     (joint_whitelist ! i \<notin> set (target_name request) \<longrightarrow> ms' ! i = ms ! i)"
    by blast
  from teleport_frame [OF run] assms(3) have names: "map name ms' = joint_whitelist" by simp
  have "cb_reach goto request ms = ([Loginfo (Teleporting ?target)], Inr ReachTargetResponse, ms')"
    using assms(1) run by (simp add: cb_reach_def)
  with names post show ?thesis by blast
qed

theorem reach_teleport_sets_goals_witness:
  "duration request_teleport \<le> 0 \<and>
   length (target_name request_teleport) \<le> length (target_position request_teleport) \<and>
   map name ergo_jr = joint_whitelist \<and>
   fst (snd (cb_reach goto_throttling request_teleport ergo_jr)) = Inr ReachTargetResponse \<and>
   goal_position (snd (snd (cb_reach goto_throttling request_teleport ergo_jr)) ! 0) = 7 \<and>
   snd (snd (cb_reach goto_throttling request_teleport ergo_jr)) ! 1 = ergo_jr ! 1"
proof -
  have h1: "duration request_teleport \<le> 0" by (simp add: request_teleport_def)
  have h2: "length (target_name request_teleport) \<le> length (target_position request_teleport)"
    by (simp add: request_teleport_def)
  have h3: "map name ergo_jr = joint_whitelist"
    by (simp add: ergo_jr_def make_motor_def comp_def)
  from reach_teleport_sets_goals [OF h1 h2 h3, of goto_throttling] obtain ms' where
    run: "cb_reach goto_throttling request_teleport ergo_jr =
            ([Loginfo (Teleporting (dict_zip (target_name request_teleport)
                                      (target_position request_teleport)))],
             Inr ReachTargetResponse, ms')" and
    post: "\<forall>i < 6.
        (joint_whitelist ! i \<in> set (target_name request_teleport) \<longrightarrow>
           map_of (dict_zip (target_name request_teleport) (target_position request_teleport))
             (joint_whitelist ! i) = Some (goal_position (ms' ! i))) \<and>
        (joint_whitelist ! i \<notin> set (target_name request_teleport) \<longrightarrow> ms' ! i = ergo_jr ! i)"
    by blast
  from post have "goal_position (ms' ! 0) = 7"
    by (simp add: request_teleport_def joint_whitelist_def dict_zip_def)
  moreover from post have "ms' ! 1 = ergo_jr ! 1"
    by (simp add: request_teleport_def joint_whitelist_def)
  ultimately show ?thesis using h1 h2 h3 run by simp
qed

text \<open>
  The claim as stated, for every request, fails on a request that names \<open>m1\<close> and
  carries no position: \<open>dict(zip(...))\<close> is empty, \<open>target['m1']\<close> raises \<open>KeyError\<close>,
  and the handler returns no response.
\<close>

theorem reach_teleport_missing_position:
  "duration request_no_position \<le> 0 \<and>
   cb_reach goto_throttling request_no_position ergo_jr =
     ([Loginfo (Teleporting [])], Inl (KeyError ''m1''), ergo_jr)"
  by (simp add: cb_reach_def request_no_position_def dict_zip_def joint_whitelist_def)

text \<open>
  C10, as the code has it. In the teleport branch no \<open>goto_position\<close> is sent (the
  outcome does not depend on the SDK's \<open>goto_position\<close> at all), and every motor keeps
  its name, its \<open>moving_speed\<close> and its compliance: only goal positions can differ. On
  a robot whose motor list is \<open>m1\<close> .. \<open>m6\<close> in this order, every motor whose name is not
  a key of the request's target dictionary is left exactly as it was. This holds for
  every outcome of the handler, also when it raises.
\<close>

theorem reach_teleport_frame:
  assumes "duration request \<le> 0"
    and "cb_reach goto request ms = (evs, r, ms')"
  shows "gotos evs = [] \<and>
         cb_reach goto' request ms = (evs, r, ms') \<and>
         length ms' = length ms \<and>
         map moving_speed ms' = map moving_speed ms \<and>
         map name ms' = map name ms \<and>
         map compliant ms' = map compliant ms \<and>
         (map name ms = joint_whitelist \<longrightarrow>
            (\<forall>i < length ms.
               map_of (dict_zip (target_name request) (target_position request)) (name (ms ! i))
                 = None \<longrightarrow> ms' ! i = ms ! i))"
proof -
  let ?target = "dict_zip (target_name request) (target_position request)"
  obtain e ms1 where run: "teleport ?target (target_name request) ms = (e, ms1)"
    by (cases "teleport ?target (target_name request) ms")
  have ms1: "ms1 = ms'" and evs: "evs = [Loginfo (Teleporting ?target)]"
    using assms run by (auto simp: cb_reach_def Let_def split: option.splits)
  have indep: "cb_reach goto' request ms = cb_reach goto request ms"
    using assms(1) by (simp add: cb_reach_def)
  note frame = teleport_frame [OF run]
  have untouched: "ms1 ! i = ms ! i"
    if ordered: "map name ms = joint_whitelist" and i: "i < length ms"
      and none: "map_of ?target (name (ms ! i)) = None" for i
  proof -
    have nm: "name (ms ! i) = joint_whitelist ! i"
      using i arg_cong [OF ordered, of "\<lambda>xs. xs ! i"] by simp
    have "map_of ?target m = None" if "list_index joint_whitelist m = Some i" for m
      using list_index_Some [OF that] nm none by simp
    with frame i show ?thesis by blast
  qed
  from frame ms1 evs indep assms(2) untouched show ?thesis by simp
qed

theorem reach_teleport_frame_witness:
  "duration request_teleport \<le> 0 \<and>
   map name ergo_jr = joint_whitelist \<and>
   cb_reach goto_throttling request_teleport ergo_jr =
     ([Loginfo (Teleporting [(''m1'', 7), (''zz'', 3)])], Inr ReachTargetResponse,
      (make_motor ''m1'')\<lparr>goal_position := 7\<rparr> # map make_motor [''m2'', ''m3'', ''m4'', ''m5'', ''m6'']) \<and>
   gotos [Loginfo (Teleporting [(''m1'', 7), (''zz'', 3)])] = [] \<and>
   map compliant
     ((make_motor ''m1'')\<lparr>goal_position := 7\<rparr> # map make_motor [''m2'', ''m3'', ''m4'', ''m5'', ''m6''])
     = map compliant ergo_jr \<and>
   ((make_motor ''m1'')\<lparr>goal_position := 7\<rparr> # map make_motor [''m2'', ''m3'', ''m4'', ''m5'', ''m6''])
     ! 1 = ergo_jr ! 1"
proof -
  let ?ms' = "(make_motor ''m1'')\<lparr>goal_position := 7\<rparr>
                # map make_motor [''m2'', ''m3'', ''m4'', ''m5'', ''m6'']"
  have h1: "duration request_teleport \<le> 0" by (simp add: request_teleport_def)
  have h3: "map name ergo_jr = joint_whitelist"
    by (simp add: ergo_jr_def make_motor_def comp_def)
  note run = teleport_run_example [of goto_throttling]
  note frame = reach_teleport_frame [OF h1 run]
  from frame have compl: "map compliant ?ms' = map compliant ergo_jr" by blast
  from frame h3 have rest: "\<forall>i < length ergo_jr.
       map_of (dict_zip (target_name request_teleport) (target_position request_teleport))
         (name (ergo_jr ! i)) = None \<longrightarrow> ?ms' ! i = ergo_jr ! i"
    by blast
  have "1 < length ergo_jr" by (simp add: ergo_jr_def joint_whitelist_def)
  moreover have "map_of (dict_zip (target_name request_teleport)
        (target_position request_teleport)) (name (ergo_jr ! 1)) = None"
    by (simp add: request_teleport_def dict_zip_def ergo_jr_def joint_whitelist_def
          make_motor_def)
  ultimately have one: "?ms' ! 1 = ergo_jr ! 1" using rest by blast
  from h1 h3 run compl one show ?thesis by simp
qed

text \<open>
  The motors are addressed by their place in the list, not by their name: on a robot
  whose list has \<open>m2\<close> first, a teleport of \<open>m1\<close> moves the goal of the motor named
  \<open>m2\<close>, which the request does not name.
\<close>

theorem reach_teleport_swapped_robot:
  "duration request_m1 \<le> 0 \<and>
   name (ergo_swapped ! 0) = ''m2'' \<and>
   map_of (dict_zip (target_name request_m1) (target_position request_m1)) ''m2'' = None \<and>
   goal_position (ergo_swapped ! 0) = 0 \<and>
   goal_position (snd (snd (cb_reach goto_throttling request_m1 ergo_swapped)) ! 0) = 10"
  by (simp add: cb_reach_def request_m1_def dict_zip_def ergo_swapped_def make_motor_def
        joint_whitelist_def)

section \<open>The \<open>reach\<close> service with a positive duration\<close>

text \<open>
  C5, as the code has it. For a \<open>reach\<close> request with duration \<open>> 0\<close> the handler passes
  the whole target dictionary and that duration to \<open>goto_position\<close>. When that call
  returns, the handler resets the speeds and returns \<open>ReachTargetResponse\<close>: the motors
  it leaves are those \<open>goto_position\<close> left, each with \<open>moving_speed = 100\<close> and nothing
  else changed.
\<close>

theorem reach_goto_resets_speed:
  assumes "0 < duration request"
    and "goto (dict_zip (target_name request) (target_position request)) (duration request) ms
           = (None, ms1)"
  shows "cb_reach goto request ms =
           ([Loginfo (Reaching (dict_zip (target_name request) (target_position request))
                        (duration request)),
             Goto_position (dict_zip (target_name request) (target_position request))
               (duration request)],
            Inr ReachTargetResponse,
            map (\<lambda>m. m\<lparr>moving_speed := 100\<rparr>) ms1) \<and>
         map moving_speed (snd (snd (cb_reach goto request ms))) = replicate (length ms1) 100"
  using assms by (simp add: cb_reach_def reset_max_speed_def Let_def map_replicate_const comp_def)

theorem reach_goto_resets_speed_witness:
  "0 < duration request_goto_known \<and>
   goto_throttling (dict_zip (target_name request_goto_known)
       (target_position request_goto_known)) (duration request_goto_known) ergo_jr =
     (None, (make_motor ''m1'')\<lparr>goal_position := 10, moving_speed := 5\<rparr>
            # (make_motor ''m2'')\<lparr>goal_position := 20, moving_speed := 10\<rparr>
            # map make_motor [''m3'', ''m4'', ''m5'', ''m6'']) \<and>
   map moving_speed (snd (snd (cb_reach goto_throttling request_goto_known ergo_jr))) =
     [100, 100, 100, 100, 100, 100]"
proof -
  let ?ms1 = "(make_motor ''m1'')\<lparr>goal_position := 10, moving_speed := 5\<rparr>
            # (make_motor ''m2'')\<lparr>goal_position := 20, moving_speed := 10\<rparr>
            # map make_motor [''m3'', ''m4'', ''m5'', ''m6'']"
  have h: "0 < duration request_goto_known" by (simp add: request_goto_known_def)
  have g: "goto_throttling (dict_zip (target_name request_goto_known)
       (target_position request_goto_known)) (duration request_goto_known) ergo_jr =
     (None, ?ms1)"
    by (simp add: request_goto_known_def dict_zip_def ergo_jr_def joint_whitelist_def
          make_motor_def)
  have "map moving_speed (snd (snd (cb_reach goto_throttling request_goto_known ergo_jr))) =
          replicate (length ?ms1) 100"
    by (rule conjunct2 [OF reach_goto_resets_speed
          [where request = request_goto_known and goto = goto_throttling and ms = ergo_jr
             and ?ms1.0 = ?ms1, OF h g]])
  then have "map moving_speed (snd (snd (cb_reach goto_throttling request_goto_known ergo_jr))) =
          [100, 100, 100, 100, 100, 100]" by (simp add: numeral_eq_Suc)
  with h g show ?thesis by blast
qed

text \<open>
  When \<open>goto_position\<close> raises, the handler is left at once: no speed is reset and no
  response is returned. Here the request names \<open>zz\<close>, which the robot does not have;
  \<open>m1\<close> has already been commanded and keeps its throttled speed.
\<close>

theorem reach_goto_unknown_joint:
  "0 < duration request_goto \<and>
   cb_reach goto_throttling request_goto ergo_jr =
     ([Loginfo (Reaching [(''m1'', 7), (''zz'', 3)] 2),
       Goto_position [(''m1'', 7), (''zz'', 3)] 2],
      Inl (AttributeError ''zz''),
      (make_motor ''m1'')\<lparr>goal_position := 7, moving_speed := 7 / 2\<rparr>
        # map make_motor [''m2'', ''m3'', ''m4'', ''m5'', ''m6''])"
  by (simp add: cb_reach_def request_goto_def dict_zip_def ergo_jr_def joint_whitelist_def
        make_motor_def Let_def)

section \<open>Facts about the executor loop\<close>

lemma execute_points_shutdown_prefix:
  "is_shutdown env (i + length xs) \<Longrightarrow>
     execute_points goto env ps jn i (xs @ p # ys) time ms =
     execute_points goto env ps jn i xs time ms"
proof (induction xs arbitrary: i time ms)
  case Nil
  then show ?case by simp
next
  case (Cons x xs)
  from Cons.prems have sd: "is_shutdown env (Suc i + length xs)" by simp
  note ih = Cons.IH [OF sd]
  show ?case by (simp add: Let_def ih split: option.splits prod.splits)
qed

lemma execute_points_raised_prefix:
  "raised (execute_points goto env ps jn i xs time ms) = Some e \<Longrightarrow>
     execute_points goto env ps jn i (xs @ ys) time ms =
     execute_points goto env ps jn i xs time ms"
proof (induction xs arbitrary: i time ms)
  case Nil
  then show ?case by simp
next
  case (Cons x xs)
  show ?case
  proof (cases "is_shutdown env i")
    case True
    then show ?thesis by simp
  next
    case False
    note running = False
    show ?thesis
    proof (cases "time_from_start x - time < 0")
      case True
      note late = True
      show ?thesis
      proof (cases "logging_raises env")
        case True
        with running late show ?thesis by (simp add: Let_def)
      next
        case False
        with running late Cons.prems
        have "raised (execute_points goto env ps jn (Suc i) xs time ms) = Some e"
          by (simp add: Let_def)
        from Cons.IH [OF this] running late False show ?thesis by (simp add: Let_def)
      qed
    next
      case False
      note due = False
      show ?thesis
      proof (cases "ps ''time_margin''")
        case None
        with running due show ?thesis by (simp add: Let_def)
      next
        case (Some tm)
        obtain err ms' where
          g: "goto (dict_zip jn (positions x)) (tm + (time_from_start x - time)) ms = (err, ms')"
          by (cases "goto (dict_zip jn (positions x)) (tm + (time_from_start x - time)) ms")
        show ?thesis
        proof (cases err)
          case (Some a)
          with running due \<open>ps ''time_margin'' = Some tm\<close> g show ?thesis
            by (simp add: Let_def)
        next
          case None
          note returned = None
          show ?thesis
          proof (cases "sleep_interrupted env i")
            case True
            with running due Some g returned show ?thesis by (simp add: Let_def)
          next
            case False
            with running due Some g returned Cons.prems
            have "raised (execute_points goto env ps jn (Suc i) xs (time_from_start x) ms')
                    = Some e"
              by (simp add: Let_def)
            from Cons.IH [OF this] running due Some g returned False show ?thesis
              by (simp add: Let_def)
          qed
        qed
      qed
    qed
  qed
qed

lemma execute_points_append:
  assumes "\<forall>j. \<not> is_shutdown env j"
    and "raised (execute_points goto env ps jn i xs time ms) = None"
  shows "execute_points goto env ps jn i (xs @ ys) time ms =
           (execute_points goto env ps jn (i + length xs) ys
              (elapsed (execute_points goto env ps jn i xs time ms))
              (robot (execute_points goto env ps jn i xs time ms)))
           \<lparr>events := events (execute_points goto env ps jn i xs time ms)
                      @ events (execute_points goto env ps jn (i + length xs) ys
                          (elapsed (execute_points goto env ps jn i xs time ms))
                          (robot (execute_points goto env ps jn i xs time ms)))\<rparr>"
  using assms(2)
proof (induction xs arbitrary: i time ms)
  case Nil
  then show ?case by simp
next
  case (Cons x xs)
  have running: "\<not> is_shutdown env i" using assms(1) by simp
  show ?case
  proof (cases "time_from_start x - time < 0")
    case True
    note late = True
    show ?thesis
    proof (cases "logging_raises env")
      case True
      with running late Cons.prems show ?thesis by (simp add: Let_def)
    next
      case False
      with running late Cons.prems
      have "raised (execute_points goto env ps jn (Suc i) xs time ms) = None"
        by (simp add: Let_def)
      from Cons.IH [OF this] running late False show ?thesis by (simp add: Let_def)
    qed
  next
    case False
    note due = False
    show ?thesis
    proof (cases "ps ''time_margin''")
      case None
      with running due Cons.prems show ?thesis by (simp add: Let_def)
    next
      case (Some tm)
      obtain err ms' where
        g: "goto (dict_zip jn (positions x)) (tm + (time_from_start x - time)) ms = (err, ms')"
        by (cases "goto (dict_zip jn (positions x)) (tm + (time_from_start x - time)) ms")
      show ?thesis
      proof (cases err)
        case (Some a)
        with running due \<open>ps ''time_margin'' = Some tm\<close> g Cons.prems show ?thesis
          by (simp add: Let_def)
      next
        case None
        note returned = None
        show ?thesis
        proof (cases "sleep_interrupted env i")
          case True
          with running due Some g returned Cons.prems show ?thesis by (simp add: Let_def)
        next
          case False
          with running due Some g returned Cons.prems
          have "raised (execute_points goto env ps jn (Suc i) xs (time_from_start x) ms') = None"
            by (simp add: Let_def)
          from Cons.IH [OF this] running due Some g returned False show ?thesis
            by (simp add: Let_def)
        qed
      qed
    qed
  qed
qed

lemma execute_points_increasing:
  assumes "\<forall>j. \<not> is_shutdown env j \<and> \<not> sleep_interrupted env j"
    and "ps ''time_margin'' = Some tm"
  shows "sorted_wrt (<) (map time_from_start pts) \<Longrightarrow>
         (pts \<noteq> [] \<longrightarrow> time \<le> time_from_start (hd pts)) \<Longrightarrow>
         gotos_return goto tm jn time pts ms \<Longrightarrow>
         events (execute_points goto env ps jn i pts time ms) = commands tm jn time pts \<and>
         raised (execute_points goto env ps jn i pts time ms) = None \<and>
         elapsed (execute_points goto env ps jn i pts time ms) =
           (if pts = [] then time else time_from_start (last pts))"
proof (induction pts arbitrary: i time ms)
  case Nil
  then show ?case by simp
next
  case (Cons p rest)
  have due: "\<not> time_from_start p - time < 0" using Cons.prems(2) by simp
  have inc: "sorted_wrt (<) (map time_from_start rest)" using Cons.prems(1) by simp
  have nxt: "rest \<noteq> [] \<longrightarrow> time_from_start p \<le> time_from_start (hd rest)"
    using Cons.prems(1) by (cases rest) auto
  from Cons.prems(3) obtain ms' where
    g: "goto (dict_zip jn (positions p)) (tm + (time_from_start p - time)) ms = (None, ms')"
    and later: "gotos_return goto tm jn (time_from_start p) rest ms'"
    by (auto split: prod.splits option.splits)
  note ih = Cons.IH [OF inc nxt later]
  show ?case using assms due g ih by (simp add: Let_def)
qed

lemma gotos_return_take:
  "gotos_return goto tm jn t pts ms \<Longrightarrow> gotos_return goto tm jn t (take k pts) ms"
proof (induction pts arbitrary: t ms k)
  case Nil
  then show ?case by simp
next
  case (Cons p rest)
  show ?case
  proof (cases k)
    case 0
    then show ?thesis by simp
  next
    case (Suc k')
    from Cons.prems obtain ms' where
      g: "goto (dict_zip jn (positions p)) (tm + (time_from_start p - t)) ms = (None, ms')"
      and later: "gotos_return goto tm jn (time_from_start p) rest ms'"
      by (auto split: prod.splits option.splits)
    from Cons.IH [OF later, of k'] g Suc show ?thesis by simp
  qed
qed

lemma gotos_commands:
  "map fst (gotos (commands tm jn t pts)) = map (\<lambda>p. dict_zip jn (positions p)) pts"
  by (induction pts arbitrary: t) simp_all

lemma length_sleeps_commands: "length (sleeps (commands tm jn t pts)) = length pts"
  by (induction pts arbitrary: t) simp_all

lemma sum_sleeps_commands:
  "sum_list (sleeps (commands tm jn t pts)) =
     (if pts = [] then 0 else time_from_start (last pts) - t) - real (length pts) * 0.001"
proof (induction pts arbitrary: t)
  case Nil
  show ?case by simp
next
  case (Cons p rest)
  show ?case
  proof (cases "rest = []")
    case True
    then show ?thesis by simp
  next
    case False
    with Cons.IH [of "time_from_start p"] show ?thesis
      by (simp add: algebra_simps add_divide_distrib)
  qed
qed

section \<open>The trajectory executor, one waypoint at a time\<close>

text \<open>
  C2. The skip branch at work, on a trajectory whose second waypoint lies before the
  first. The loop commands the first waypoint and waits for it, then reaches the skip
  branch. The log call there cannot render its message. With handlers that let the
  error through, the run ends there with \<open>TypeError\<close>: no warning is logged, the third
  waypoint is never commanded, and \<open>execute\<close> logs neither \<open>Trajectory ended!\<close> nor
  \<open>Trajectory aborted!\<close>. With handlers that report the error, the report takes the
  place of the warning, and the run goes on with the third waypoint from the elapsed
  time of the first.
\<close>

theorem skip_branch_log_call_fails:
  "time_from_start point_a < time_from_start point_b \<and>
   events (execute goto_throttling env_running params_full trajectory_back ergo_jr) =
     [Loginfo (Executing 3),
      Goto_position [(''m1'', 30), (''m2'', 40)] (7 / 2), Sleep (2999 / 1000)] \<and>
   raised (execute goto_throttling env_running params_full trajectory_back ergo_jr) =
     Some TypeError \<and>
   events (execute goto_throttling env_stock_logging params_full trajectory_back ergo_jr) =
     [Loginfo (Executing 3),
      Goto_position [(''m1'', 30), (''m2'', 40)] (7 / 2), Sleep (2999 / 1000),
      Log_handler_error,
      Goto_position [(''m1'', 50), (''m2'', 60)] (5 / 2), Sleep (1999 / 1000),
      Loginfo Trajectory_ended]"
proof -
  have order: "time_from_start point_a < time_from_start point_b"
    by (simp add: point_a_def point_b_def)
  have raising:
    "events (execute goto_throttling env_running params_full trajectory_back ergo_jr) =
       [Loginfo (Executing 3),
        Goto_position [(''m1'', 30), (''m2'', 40)] (7 / 2), Sleep (2999 / 1000)] \<and>
     raised (execute goto_throttling env_running params_full trajectory_back ergo_jr) =
       Some TypeError"
    by (simp add: execute_def trajectory_back_def point_a_def point_b_def env_running_def
          params_full_def joints12_def dict_zip_def ergo_jr_def joint_whitelist_def
          make_motor_def Let_def)
  have stock:
    "events (execute goto_throttling env_stock_logging params_full trajectory_back ergo_jr) =
       [Loginfo (Executing 3),
        Goto_position [(''m1'', 30), (''m2'', 40)] (7 / 2), Sleep (2999 / 1000),
        Log_handler_error,
        Goto_position [(''m1'', 50), (''m2'', 60)] (5 / 2), Sleep (1999 / 1000),
        Loginfo Trajectory_ended]"
    by (simp add: execute_def trajectory_back_def point_a_def point_b_def point_c_def
          env_stock_logging_def params_full_def joints12_def dict_zip_def ergo_jr_def
          joint_whitelist_def make_motor_def Let_def)
  from order raising stock show ?thesis by blast
qed

text \<open>
  C3, as the code has it. When the loop reaches a waypoint with
  \<open>duration = time_from_start - time \<ge> 0\<close> and the time margin is configured, the first
  thing it does is \<open>goto_position(dict(zip(joint_names, positions)), time_margin + duration)\<close>.
  When that call returns, the next thing is \<open>rospy.sleep(duration - 0.001)\<close>, the wait
  without the margin; unless that wait is interrupted, the loop then goes on with the
  next waypoint on the motors the call left, the elapsed time being this waypoint's
  \<open>time_from_start\<close>.
\<close>

theorem goto_then_sleep:
  assumes "\<not> is_shutdown env i" and "time \<le> time_from_start p"
    and "ps ''time_margin'' = Some tm"
  shows "take 1 (events (execute_points goto env ps jn i (p # rest) time ms)) =
           [Goto_position (dict_zip jn (positions p)) (tm + (time_from_start p - time))]
    \<and> (goto (dict_zip jn (positions p)) (tm + (time_from_start p - time)) ms = (None, ms') \<longrightarrow>
         take 2 (events (execute_points goto env ps jn i (p # rest) time ms)) =
           [Goto_position (dict_zip jn (positions p)) (tm + (time_from_start p - time)),
            Sleep (time_from_start p - time - 0.001)]
         \<and> (\<not> sleep_interrupted env i \<longrightarrow>
              execute_points goto env ps jn i (p # rest) time ms =
                (execute_points goto env ps jn (Suc i) rest (time_from_start p) ms')
                \<lparr>events :=
                   [Goto_position (dict_zip jn (positions p)) (tm + (time_from_start p - time)),
                    Sleep (time_from_start p - time - 0.001)]
                   @ events (execute_points goto env ps jn (Suc i) rest (time_from_start p) ms')\<rparr>))"
proof -
  have due: "\<not> time_from_start p - time < 0" using assms(2) by simp
  have first: "take 1 (events (execute_points goto env ps jn i (p # rest) time ms)) =
           [Goto_position (dict_zip jn (positions p)) (tm + (time_from_start p - time))]"
    using assms(1,3) due by (simp add: Let_def split: prod.splits option.splits)
  have then_wait: "take 2 (events (execute_points goto env ps jn i (p # rest) time ms)) =
           [Goto_position (dict_zip jn (positions p)) (tm + (time_from_start p - time)),
            Sleep (time_from_start p - time - 0.001)]"
    if "goto (dict_zip jn (positions p)) (tm + (time_from_start p - time)) ms = (None, ms')"
    using that assms(1,3) due by (simp add: Let_def)
  have then_next: "execute_points goto env ps jn i (p # rest) time ms =
                (execute_points goto env ps jn (Suc i) rest (time_from_start p) ms')
                \<lparr>events :=
                   [Goto_position (dict_zip jn (positions p)) (tm + (time_from_start p - time)),
                    Sleep (time_from_start p - time - 0.001)]
                   @ events (execute_points goto env ps jn (Suc i) rest (time_from_start p) ms')\<rparr>"
    if "goto (dict_zip jn (positions p)) (tm + (time_from_start p - time)) ms = (None, ms')"
      and "\<not> sleep_interrupted env i"
    using that assms(1,3) due by (simp add: Let_def)
  from first then_wait then_next show ?thesis by blast
qed

theorem goto_then_sleep_witness:
  "\<not> is_shutdown env_running 0 \<and> 0 \<le> time_from_start point_a \<and>
   params_full ''time_margin'' = Some (1 / 2) \<and>
   fst (goto_throttling [(''m1'', 10), (''m2'', 20)] (3 / 2) ergo_jr) = None \<and>
   \<not> sleep_interrupted env_running 0 \<and>
   take 2 (events (execute_points goto_throttling env_running params_full joints12 0
             [point_a, point_b] 0 ergo_jr)) =
     [Goto_position [(''m1'', 10), (''m2'', 20)] (3 / 2), Sleep (999 / 1000)] \<and>
   elapsed (execute_points goto_throttling env_running params_full joints12 0
             [point_a] 0 ergo_jr) = 1"
proof -
  let ?ms' = "snd (goto_throttling [(''m1'', 10), (''m2'', 20)] (3 / 2) ergo_jr)"
  have h1: "\<not> is_shutdown env_running 0" by (simp add: env_running_def)
  have h2: "0 \<le> time_from_start point_a" by (simp add: point_a_def)
  have h3: "params_full ''time_margin'' = Some (1 / 2)" by (simp add: params_full_def)
  have h5: "\<not> sleep_interrupted env_running 0" by (simp add: env_running_def)
  have tgt: "dict_zip joints12 (positions point_a) = [(''m1'', 10), (''m2'', 20)]"
    by (simp add: dict_zip_def joints12_def point_a_def)
  have dur: "1 / 2 + (time_from_start point_a - 0) = 3 / 2" by (simp add: point_a_def)
  have wait: "time_from_start point_a - 0 - 0.001 = 999 / 1000" by (simp add: point_a_def)
  have ok: "fst (goto_throttling [(''m1'', 10), (''m2'', 20)] (3 / 2) ergo_jr) = None"
    by (simp add: ergo_jr_def joint_whitelist_def make_motor_def)
  then have h4: "goto_throttling (dict_zip joints12 (positions point_a))
                   (1 / 2 + (time_from_start point_a - 0)) ergo_jr = (None, ?ms')"
    unfolding tgt dur by (simp add: prod_eq_iff)
  note two = goto_then_sleep
    [where env = env_running and i = 0 and time = 0 and p = point_a and ps = params_full
       and tm = "1 / 2" and goto = goto_throttling and jn = joints12
       and ms = ergo_jr and ms' = ?ms', OF h1 h2 h3]
  from two [where rest = "[point_b]"] h4
  have a: "take 2 (events (execute_points goto_throttling env_running params_full joints12 0
             [point_a, point_b] 0 ergo_jr)) =
     [Goto_position [(''m1'', 10), (''m2'', 20)] (3 / 2), Sleep (999 / 1000)]"
    unfolding tgt dur wait by blast
  from two [where rest = "[]"] h4 h5
  have "execute_points goto_throttling env_running params_full joints12 0 [point_a] 0 ergo_jr =
          (execute_points goto_throttling env_running params_full joints12 (Suc 0) []
             (time_from_start point_a) ?ms')
          \<lparr>events := [Goto_position (dict_zip joints12 (positions point_a))
                        (1 / 2 + (time_from_start point_a - 0)),
                      Sleep (time_from_start point_a - 0 - 0.001)]
             @ events (execute_points goto_throttling env_running params_full joints12
                         (Suc 0) [] (time_from_start point_a) ?ms')\<rparr>"
    by blast
  then have b: "elapsed (execute_points goto_throttling env_running params_full joints12 0
             [point_a] 0 ergo_jr) = 1"
    by (simp add: point_a_def)
  from h1 h2 h3 ok h5 a b show ?thesis by blast
qed

text \<open>
  The command is not always followed by the wait, and not always sent. A trajectory that
  names a joint \<open>zz\<close> the robot does not have makes \<open>goto_position\<close> raise after \<open>m1\<close>
  was commanded, and the loop is left before any wait. Without \<open>time_margin\<close> in the
  configuration the arguments of the call cannot be evaluated: \<open>KeyError\<close>, no command.
\<close>

theorem goto_raises_before_the_wait:
  "\<not> is_shutdown env_running 0 \<and> 0 \<le> time_from_start point_a \<and>
   execute_points goto_throttling env_running params_full [''m1'', ''zz''] 0
     [point_a, point_b] 0 ergo_jr =
     \<lparr>events = [Goto_position [(''m1'', 10), (''zz'', 20)] (3 / 2)],
      raised = Some (AttributeError ''zz''), elapsed = 0,
      robot = (make_motor ''m1'')\<lparr>goal_position := 10, moving_speed := 20 / 3\<rparr>
                # map make_motor [''m2'', ''m3'', ''m4'', ''m5'', ''m6'']\<rparr> \<and>
   params_no_margin ''time_margin'' = None \<and>
   execute_points goto_throttling env_running params_no_margin joints12 0
     [point_a, point_b] 0 ergo_jr =
     \<lparr>events = [], raised = Some (KeyError ''time_margin''), elapsed = 0, robot = ergo_jr\<rparr>"
proof -
  have a: "\<not> is_shutdown env_running 0 \<and> 0 \<le> time_from_start point_a"
    by (simp add: env_running_def point_a_def)
  have b: "execute_points goto_throttling env_running params_full [''m1'', ''zz''] 0
     [point_a, point_b] 0 ergo_jr =
     \<lparr>events = [Goto_position [(''m1'', 10), (''zz'', 20)] (3 / 2)],
      raised = Some (AttributeError ''zz''), elapsed = 0,
      robot = (make_motor ''m1'')\<lparr>goal_position := 10, moving_speed := 20 / 3\<rparr>
                # map make_motor [''m2'', ''m3'', ''m4'', ''m5'', ''m6'']\<rparr>"
    by (simp add: env_running_def params_full_def point_a_def dict_zip_def ergo_jr_def
          joint_whitelist_def make_motor_def Let_def)
  have c: "params_no_margin ''time_margin'' = None" by (simp add: params_no_margin_def)
  have d: "execute_points goto_throttling env_running params_no_margin joints12 0
     [point_a, point_b] 0 ergo_jr =
     \<lparr>events = [], raised = Some (KeyError ''time_margin''), elapsed = 0, robot = ergo_jr\<rparr>"
    by (simp add: env_running_def params_no_margin_def point_a_def Let_def)
  from a b c d show ?thesis by blast
qed

section \<open>The trajectory executor on a chronological trajectory\<close>

text \<open>
  C1, as the code has it. Take a trajectory whose \<open>time_from_start\<close> values are strictly
  increasing and whose first one is not negative, a configured time margin, and a run in
  which no shutdown is seen, no wait is interrupted and every \<open>goto_position\<close> call
  returns. Then the executor does exactly \<open>commands\<close>: one \<open>goto_position\<close> per waypoint,
  in list order, each followed by its wait; it raises nothing; after the first \<open>k + 1\<close>
  waypoints the elapsed time is the \<open>time_from_start\<close> of waypoint \<open>k\<close>, and the whole
  run is that prefix followed by the run on the remaining waypoints from there; the
  waits add up to the last \<open>time_from_start\<close> within one millisecond per waypoint; and
  \<open>execute\<close> logs the start, does these commands, and logs \<open>Trajectory ended!\<close>.
\<close>

theorem executor_follows_increasing_trajectory:
  assumes "\<forall>j. \<not> is_shutdown env j \<and> \<not> sleep_interrupted env j"
    and "ps ''time_margin'' = Some tm"
    and "gotos_return goto tm jn 0 pts ms"
    and "sorted_wrt (<) (map time_from_start pts)"
    and "0 \<le> time_from_start (hd pts)"
    and "k < length pts"
  shows "events (execute_points goto env ps jn 0 pts 0 ms) = commands tm jn 0 pts
    \<and> raised (execute_points goto env ps jn 0 pts 0 ms) = None
    \<and> map fst (gotos (events (execute_points goto env ps jn 0 pts 0 ms))) =
        map (\<lambda>p. dict_zip jn (positions p)) pts
    \<and> length (sleeps (events (execute_points goto env ps jn 0 pts 0 ms))) = length pts
    \<and> \<bar>sum_list (sleeps (events (execute_points goto env ps jn 0 pts 0 ms)))
         - time_from_start (last pts)\<bar> \<le> real (length pts) * 0.001
    \<and> elapsed (execute_points goto env ps jn 0 pts 0 ms) = time_from_start (last pts)
    \<and> elapsed (execute_points goto env ps jn 0 (take (Suc k) pts) 0 ms) =
        time_from_start (pts ! k)
    \<and> execute_points goto env ps jn 0 pts 0 ms =
        (execute_points goto env ps jn (Suc k) (drop (Suc k) pts)
           (time_from_start (pts ! k))
           (robot (execute_points goto env ps jn 0 (take (Suc k) pts) 0 ms)))
        \<lparr>events := events (execute_points goto env ps jn 0 (take (Suc k) pts) 0 ms)
           @ events (execute_points goto env ps jn (Suc k) (drop (Suc k) pts)
               (time_from_start (pts ! k))
               (robot (execute_points goto env ps jn 0 (take (Suc k) pts) 0 ms)))\<rparr>
    \<and> events (execute goto env ps \<lparr>joint_names = jn, points = pts\<rparr> ms) =
        Loginfo (Executing (length pts)) # commands tm jn 0 pts @ [Loginfo Trajectory_ended]
    \<and> raised (execute goto env ps \<lparr>joint_names = jn, points = pts\<rparr> ms) = None"
proof -
  let ?pre = "take (Suc k) pts"
  from assms(6) have ne: "pts \<noteq> []" by auto
  have first: "pts \<noteq> [] \<longrightarrow> 0 \<le> time_from_start (hd pts)" using assms(5) by simp
  note whole = execute_points_increasing
    [where env = env and ps = ps and tm = tm and pts = pts and time = 0 and goto = goto
       and jn = jn and i = 0 and ms = ms, OF assms(1,2) assms(4) first assms(3)]
  have pre_ne: "?pre \<noteq> []" using ne by simp
  have pre_inc: "sorted_wrt (<) (map time_from_start ?pre)"
    using assms(4) by (simp add: take_map [symmetric] sorted_wrt_take)
  have pre_first: "?pre \<noteq> [] \<longrightarrow> 0 \<le> time_from_start (hd ?pre)"
    using assms(5) ne by (cases pts) simp_all
  have pre_ok: "gotos_return goto tm jn 0 ?pre ms"
    by (rule gotos_return_take [OF assms(3)])
  note pre = execute_points_increasing
    [where env = env and ps = ps and tm = tm and pts = ?pre and time = 0 and goto = goto
       and jn = jn and i = 0 and ms = ms, OF assms(1,2) pre_inc pre_first pre_ok]
  have pre_last: "last ?pre = pts ! k"
    using assms(6) by (simp add: take_Suc_conv_app_nth)
  have pre_elapsed: "elapsed (execute_points goto env ps jn 0 ?pre 0 ms) = time_from_start (pts ! k)"
    using pre pre_ne pre_last by simp
  have quiet: "\<forall>j. \<not> is_shutdown env j" using assms(1) by simp
  have pre_raised: "raised (execute_points goto env ps jn 0 ?pre 0 ms) = None"
    using pre by simp
  have len: "0 + length ?pre = Suc k" using assms(6) by simp
  have split: "execute_points goto env ps jn 0 (?pre @ drop (Suc k) pts) 0 ms =
        (execute_points goto env ps jn (0 + length ?pre) (drop (Suc k) pts)
           (elapsed (execute_points goto env ps jn 0 ?pre 0 ms))
           (robot (execute_points goto env ps jn 0 ?pre 0 ms)))
        \<lparr>events := events (execute_points goto env ps jn 0 ?pre 0 ms)
           @ events (execute_points goto env ps jn (0 + length ?pre) (drop (Suc k) pts)
               (elapsed (execute_points goto env ps jn 0 ?pre 0 ms))
               (robot (execute_points goto env ps jn 0 ?pre 0 ms)))\<rparr>"
    by (rule execute_points_append [OF quiet pre_raised])
  have c8: "execute_points goto env ps jn 0 pts 0 ms =
        (execute_points goto env ps jn (Suc k) (drop (Suc k) pts)
           (time_from_start (pts ! k))
           (robot (execute_points goto env ps jn 0 ?pre 0 ms)))
        \<lparr>events := events (execute_points goto env ps jn 0 ?pre 0 ms)
           @ events (execute_points goto env ps jn (Suc k) (drop (Suc k) pts)
               (time_from_start (pts ! k))
               (robot (execute_points goto env ps jn 0 ?pre 0 ms)))\<rparr>"
    using split unfolding len pre_elapsed append_take_drop_id .
  have c1: "events (execute_points goto env ps jn 0 pts 0 ms) = commands tm jn 0 pts"
    using whole by simp
  have c2: "raised (execute_points goto env ps jn 0 pts 0 ms) = None" using whole by simp
  have c6: "elapsed (execute_points goto env ps jn 0 pts 0 ms) = time_from_start (last pts)"
    using whole ne by simp
  have c3: "map fst (gotos (events (execute_points goto env ps jn 0 pts 0 ms))) =
        map (\<lambda>p. dict_zip jn (positions p)) pts"
    by (simp only: c1 gotos_commands)
  have c4: "length (sleeps (events (execute_points goto env ps jn 0 pts 0 ms))) = length pts"
    by (simp only: c1 length_sleeps_commands)
  have "sum_list (sleeps (events (execute_points goto env ps jn 0 pts 0 ms))) =
        time_from_start (last pts) - real (length pts) * 0.001"
    using ne by (simp only: c1 sum_sleeps_commands) simp
  then have c5: "\<bar>sum_list (sleeps (events (execute_points goto env ps jn 0 pts 0 ms)))
         - time_from_start (last pts)\<bar> \<le> real (length pts) * 0.001"
    by simp
  have c9: "events (execute goto env ps \<lparr>joint_names = jn, points = pts\<rparr> ms) =
        Loginfo (Executing (length pts)) # commands tm jn 0 pts @ [Loginfo Trajectory_ended]"
    using c1 c2 by (simp add: execute_def Let_def)
  have c10: "raised (execute goto env ps \<lparr>joint_names = jn, points = pts\<rparr> ms) = None"
    using c2 by (simp add: execute_def Let_def)
  from c1 c2 c3 c4 c5 c6 pre_elapsed c8 c9 c10 show ?thesis by blast
qed

theorem executor_follows_increasing_trajectory_witness:
  "(\<forall>j. \<not> is_shutdown env_running j \<and> \<not> sleep_interrupted env_running j) \<and>
   params_full ''time_margin'' = Some (1 / 2) \<and>
   gotos_return goto_throttling (1 / 2) joints12 0 [point_a, point_b] ergo_jr \<and>
   sorted_wrt (<) (map time_from_start [point_a, point_b]) \<and>
   0 \<le> time_from_start (hd [point_a, point_b]) \<and>
   events (execute_points goto_throttling env_running params_full joints12 0
             [point_a, point_b] 0 ergo_jr) =
     [Goto_position [(''m1'', 10), (''m2'', 20)] (3 / 2), Sleep (999 / 1000),
      Goto_position [(''m1'', 30), (''m2'', 40)] (5 / 2), Sleep (1999 / 1000)] \<and>
   \<bar>sum_list (sleeps (events (execute_points goto_throttling env_running params_full joints12
             0 [point_a, point_b] 0 ergo_jr))) - 3\<bar> \<le> 2 / 1000 \<and>
   elapsed (execute_points goto_throttling env_running params_full joints12
             0 (take (Suc 0) [point_a, point_b]) 0 ergo_jr) = 1 \<and>
   elapsed (execute_points goto_throttling env_running params_full joints12
             0 [point_a, point_b] 0 ergo_jr) = 3"
proof -
  have h1: "\<forall>j. \<not> is_shutdown env_running j \<and> \<not> sleep_interrupted env_running j"
    by (simp add: env_running_def)
  have h2: "params_full ''time_margin'' = Some (1 / 2)" by (simp add: params_full_def)
  have h3: "gotos_return goto_throttling (1 / 2) joints12 0 [point_a, point_b] ergo_jr"
    by (simp add: joints12_def point_a_def point_b_def dict_zip_def ergo_jr_def
          joint_whitelist_def make_motor_def)
  have h4: "sorted_wrt (<) (map time_from_start [point_a, point_b])"
    by (simp add: point_a_def point_b_def)
  have h5: "0 \<le> time_from_start (hd [point_a, point_b])" by (simp add: point_a_def)
  have h6: "0 < length [point_a, point_b]" by simp
  note run = executor_follows_increasing_trajectory
    [where env = env_running and ps = params_full and tm = "1 / 2"
       and pts = "[point_a, point_b]" and k = 0 and goto = goto_throttling
       and jn = joints12 and ms = ergo_jr, OF h1 h2 h3 h4 h5 h6]
  have cmds: "commands (1 / 2) joints12 0 [point_a, point_b] =
     [Goto_position [(''m1'', 10), (''m2'', 20)] (3 / 2), Sleep (999 / 1000),
      Goto_position [(''m1'', 30), (''m2'', 40)] (5 / 2), Sleep (1999 / 1000)]"
    by (simp add: joints12_def point_a_def point_b_def dict_zip_def)
  have tfs: "time_from_start (last [point_a, point_b]) = 3"
    "time_from_start ([point_a, point_b] ! 0) = 1"
    by (simp_all add: point_a_def point_b_def)
  from run have
    e: "events (execute_points goto_throttling env_running params_full joints12
             0 [point_a, point_b] 0 ergo_jr) =
          commands (1 / 2) joints12 0 [point_a, point_b]" and
    s: "\<bar>sum_list (sleeps (events (execute_points goto_throttling env_running params_full
             joints12 0 [point_a, point_b] 0 ergo_jr)))
          - time_from_start (last [point_a, point_b])\<bar>
          \<le> real (length [point_a, point_b]) * 0.001" and
    l: "elapsed (execute_points goto_throttling env_running params_full joints12
             0 [point_a, point_b] 0 ergo_jr) =
          time_from_start (last [point_a, point_b])" and
    k: "elapsed (execute_points goto_throttling env_running params_full joints12
             0 (take (Suc 0) [point_a, point_b]) 0 ergo_jr) =
          time_from_start ([point_a, point_b] ! 0)"
    by blast+
  from s have s': "\<bar>sum_list (sleeps (events (execute_points goto_throttling env_running
             params_full joints12 0 [point_a, point_b] 0 ergo_jr))) - 3\<bar> \<le> 2 / 1000"
    by (simp only: tfs) simp
  from h1 h2 h3 h4 h5 e [unfolded cmds] s' k [unfolded tfs] l [unfolded tfs]
  show ?thesis by blast
qed

text \<open>
  Strictly increasing times alone do not give one command per waypoint. With a first
  \<open>time_from_start\<close> of \<open>-1\<close> the first waypoint falls into the skip branch: two
  waypoints get no command when the failed log call ends the run, and one command when
  the handlers report the failure. A trajectory that names a joint the robot does not
  have ends at its first command with \<open>AttributeError\<close>. When the node is shutting down
  no waypoint is commanded. Without \<open>time_margin\<close> in the configuration the run ends
  with \<open>KeyError\<close> before any command.
\<close>

theorem increasing_trajectory_without_all_commands:
  "sorted_wrt (<) (map time_from_start (points trajectory_early)) \<and>
   length (points trajectory_early) = 2 \<and>
   gotos (events (execute goto_throttling env_running params_full trajectory_early ergo_jr))
     = [] \<and>
   gotos (events (execute goto_throttling env_stock_logging params_full trajectory_early
                    ergo_jr))
     = [([(''m1'', 30), (''m2'', 40)], 7 / 2)] \<and>
   sorted_wrt (<) (map time_from_start (points trajectory_unknown)) \<and>
   0 \<le> time_from_start (hd (points trajectory_unknown)) \<and>
   length (points trajectory_unknown) = 2 \<and>
   events (execute goto_throttling env_running params_full trajectory_unknown ergo_jr) =
     [Loginfo (Executing 2), Goto_position [(''m1'', 10), (''zz'', 20)] (3 / 2)] \<and>
   raised (execute goto_throttling env_running params_full trajectory_unknown ergo_jr) =
     Some (AttributeError ''zz'') \<and>
   sorted_wrt (<) (map time_from_start (points trajectory_ab)) \<and>
   0 \<le> time_from_start (hd (points trajectory_ab)) \<and>
   length (points trajectory_ab) = 2 \<and>
   events (execute goto_throttling env_shut_down params_full trajectory_ab ergo_jr) =
     [Loginfo (Executing 2), Loginfo Trajectory_ended] \<and>
   events (execute goto_throttling env_running params_no_margin trajectory_ab ergo_jr) =
     [Loginfo (Executing 2)] \<and>
   raised (execute goto_throttling env_running params_no_margin trajectory_ab ergo_jr) =
     Some (KeyError ''time_margin'')"
proof -
  have early: "sorted_wrt (<) (map time_from_start (points trajectory_early)) \<and>
      length (points trajectory_early) = 2"
    by (simp add: trajectory_early_def point_early_def point_b_def)
  have early_raising:
    "gotos (events (execute goto_throttling env_running params_full trajectory_early ergo_jr))
       = []"
    by (simp add: execute_def trajectory_early_def point_early_def env_running_def Let_def)
  have early_stock:
    "gotos (events (execute goto_throttling env_stock_logging params_full trajectory_early
                      ergo_jr))
       = [([(''m1'', 30), (''m2'', 40)], 7 / 2)]"
    by (simp add: execute_def trajectory_early_def point_early_def point_b_def
          env_stock_logging_def params_full_def joints12_def dict_zip_def ergo_jr_def
          joint_whitelist_def make_motor_def Let_def)
  have unknown: "sorted_wrt (<) (map time_from_start (points trajectory_unknown)) \<and>
      0 \<le> time_from_start (hd (points trajectory_unknown)) \<and>
      length (points trajectory_unknown) = 2"
    by (simp add: trajectory_unknown_def point_a_def point_b_def)
  have unknown_run:
    "events (execute goto_throttling env_running params_full trajectory_unknown ergo_jr) =
       [Loginfo (Executing 2), Goto_position [(''m1'', 10), (''zz'', 20)] (3 / 2)] \<and>
     raised (execute goto_throttling env_running params_full trajectory_unknown ergo_jr) =
       Some (AttributeError ''zz'')"
    by (simp add: execute_def trajectory_unknown_def point_a_def env_running_def
          params_full_def dict_zip_def ergo_jr_def joint_whitelist_def make_motor_def Let_def)
  have ab: "sorted_wrt (<) (map time_from_start (points trajectory_ab)) \<and>
      0 \<le> time_from_start (hd (points trajectory_ab)) \<and>
      length (points trajectory_ab) = 2"
    by (simp add: trajectory_ab_def point_a_def point_b_def)
  have down:
    "events (execute goto_throttling env_shut_down params_full trajectory_ab ergo_jr) =
       [Loginfo (Executing 2), Loginfo Trajectory_ended]"
    by (simp add: execute_def trajectory_ab_def env_shut_down_def Let_def)
  have no_margin:
    "events (execute goto_throttling env_running params_no_margin trajectory_ab ergo_jr) =
       [Loginfo (Executing 2)] \<and>
     raised (execute goto_throttling env_running params_no_margin trajectory_ab ergo_jr) =
       Some (KeyError ''time_margin'')"
    by (simp add: execute_def trajectory_ab_def point_a_def env_running_def
          params_no_margin_def Let_def)
  from early early_raising early_stock unknown unknown_run ab down no_margin
  show ?thesis by blast
qed

section \<open>Shutdown during a trajectory\<close>

text \<open>
  C7, as the code has it. If \<open>rospy.is_shutdown()\<close> is true at a waypoint boundary, the
  run is the run on the waypoints before it: the waypoint at the boundary and all later
  ones are not processed. If a wait raises \<open>ROSInterruptException\<close>, the loop stops
  after that waypoint's command and wait, whatever waypoints follow, and \<open>execute\<close> ends
  its log with the warning \<open>Trajectory aborted!\<close>. \<open>execute\<close> never lets
  \<open>ROSInterruptException\<close> escape, and \<open>_cb_execute\<close> has returned its response
  without looking at the run.
\<close>

theorem shutdown_stops_executor:
  "(is_shutdown env (i + length xs) \<longrightarrow>
      execute_points goto env ps jn i (xs @ p # ys) time ms =
      execute_points goto env ps jn i xs time ms)
   \<and> (raised (execute_points goto env ps jn i xs time ms) = Some ROSInterruptException \<longrightarrow>
      execute_points goto env ps jn i (xs @ ys) time ms =
      execute_points goto env ps jn i xs time ms)
   \<and> (\<not> is_shutdown env j \<and> t \<le> time_from_start q \<and> ps ''time_margin'' = Some tm \<and>
        goto (dict_zip jn (positions q)) (tm + (time_from_start q - t)) ms = (None, ms') \<and>
        sleep_interrupted env j \<longrightarrow>
      execute_points goto env ps jn j (q # rest) t ms =
        \<lparr>events = [Goto_position (dict_zip jn (positions q)) (tm + (time_from_start q - t)),
                   Sleep (time_from_start q - t - 0.001)],
         raised = Some ROSInterruptException, elapsed = t, robot = ms'\<rparr>)
   \<and> (raised (execute_points goto env ps (joint_names traj) 0 (points traj) 0 ms)
        = Some ROSInterruptException \<longrightarrow>
      events (execute goto env ps traj ms) =
        Loginfo (Executing (length (points traj)))
          # events (execute_points goto env ps (joint_names traj) 0 (points traj) 0 ms)
          @ [Logwarn Trajectory_aborted])
   \<and> raised (execute goto env ps traj ms) \<noteq> Some ROSInterruptException
   \<and> snd (cb_execute traj) = ExecuteTrajectoryResponse"
proof -
  have a: "is_shutdown env (i + length xs) \<longrightarrow>
      execute_points goto env ps jn i (xs @ p # ys) time ms =
      execute_points goto env ps jn i xs time ms"
    by (simp add: execute_points_shutdown_prefix)
  have b: "raised (execute_points goto env ps jn i xs time ms) = Some ROSInterruptException \<longrightarrow>
      execute_points goto env ps jn i (xs @ ys) time ms =
      execute_points goto env ps jn i xs time ms"
    by (simp add: execute_points_raised_prefix)
  have c: "\<not> is_shutdown env j \<and> t \<le> time_from_start q \<and> ps ''time_margin'' = Some tm \<and>
        goto (dict_zip jn (positions q)) (tm + (time_from_start q - t)) ms = (None, ms') \<and>
        sleep_interrupted env j \<longrightarrow>
      execute_points goto env ps jn j (q # rest) t ms =
        \<lparr>events = [Goto_position (dict_zip jn (positions q)) (tm + (time_from_start q - t)),
                   Sleep (time_from_start q - t - 0.001)],
         raised = Some ROSInterruptException, elapsed = t, robot = ms'\<rparr>"
    by (simp add: Let_def)
  have d: "raised (execute_points goto env ps (joint_names traj) 0 (points traj) 0 ms)
        = Some ROSInterruptException \<longrightarrow>
      events (execute goto env ps traj ms) =
        Loginfo (Executing (length (points traj)))
          # events (execute_points goto env ps (joint_names traj) 0 (points traj) 0 ms)
          @ [Logwarn Trajectory_aborted]"
    by (simp add: execute_def Let_def)
  have e: "raised (execute goto env ps traj ms) \<noteq> Some ROSInterruptException"
    by (simp add: execute_def Let_def split: option.splits)
  have f: "snd (cb_execute traj) = ExecuteTrajectoryResponse"
    by (simp add: cb_execute_def)
  from a b c d e f show ?thesis by blast
qed

theorem shutdown_stops_executor_witness:
  "is_shutdown env_interrupted_first (0 + length [point_a]) \<and>
   \<not> is_shutdown env_interrupted_first 0 \<and> sleep_interrupted env_interrupted_first 0 \<and>
   execute_points goto_throttling env_interrupted_first params_full joints12 0
     [point_a, point_b] 0 ergo_jr =
     \<lparr>events = [Goto_position [(''m1'', 10), (''m2'', 20)] (3 / 2), Sleep (999 / 1000)],
      raised = Some ROSInterruptException, elapsed = 0,
      robot = snd (goto_throttling [(''m1'', 10), (''m2'', 20)] (3 / 2) ergo_jr)\<rparr> \<and>
   events (execute goto_throttling env_interrupted_first params_full trajectory_ab ergo_jr) =
     [Loginfo (Executing 2),
      Goto_position [(''m1'', 10), (''m2'', 20)] (3 / 2), Sleep (999 / 1000),
      Logwarn Trajectory_aborted]"
proof -
  let ?ms' = "snd (goto_throttling [(''m1'', 10), (''m2'', 20)] (3 / 2) ergo_jr)"
  let ?stop = "\<lparr>events = [Goto_position [(''m1'', 10), (''m2'', 20)] (3 / 2), Sleep (999 / 1000)],
      raised = Some ROSInterruptException, elapsed = 0, robot = ?ms'\<rparr>"
  have h1: "is_shutdown env_interrupted_first (0 + length [point_a])"
    by (simp add: env_interrupted_first_def)
  have h2: "\<not> is_shutdown env_interrupted_first 0" "sleep_interrupted env_interrupted_first 0"
    by (simp_all add: env_interrupted_first_def)
  have h3: "0 \<le> time_from_start point_a" "params_full ''time_margin'' = Some (1 / 2)"
    by (simp_all add: point_a_def params_full_def)
  have tgt: "dict_zip joints12 (positions point_a) = [(''m1'', 10), (''m2'', 20)]"
    by (simp add: dict_zip_def joints12_def point_a_def)
  have dur: "1 / 2 + (time_from_start point_a - 0) = 3 / 2" by (simp add: point_a_def)
  have wait: "time_from_start point_a - 0 - 0.001 = 999 / 1000" by (simp add: point_a_def)
  have ok: "fst (goto_throttling [(''m1'', 10), (''m2'', 20)] (3 / 2) ergo_jr) = None"
    by (simp add: ergo_jr_def joint_whitelist_def make_motor_def)
  then have h4: "goto_throttling (dict_zip joints12 (positions point_a))
                   (1 / 2 + (time_from_start point_a - 0)) ergo_jr = (None, ?ms')"
    unfolding tgt dur by (simp add: prod_eq_iff)
  have traj: "joint_names trajectory_ab = joints12" "points trajectory_ab = [point_a, point_b]"
    by (simp_all add: trajectory_ab_def)
  have app: "[point_a] @ [point_b] = [point_a, point_b]" by simp
  note inst = shutdown_stops_executor
    [where env = env_interrupted_first and i = 0 and xs = "[point_a]" and p = point_b
       and ys = "[]" and goto = goto_throttling and ps = params_full and jn = joints12
       and time = 0 and ms = ergo_jr and j = 0 and t = 0 and q = point_a
       and tm = "1 / 2" and ms' = ?ms' and rest = "[point_b]" and traj = trajectory_ab]
  from inst h2 h3 h4 have step: "execute_points goto_throttling env_interrupted_first
      params_full joints12 0 [point_a, point_b] 0 ergo_jr = ?stop"
    unfolding tgt dur wait by blast
  from inst h2 h3 h4 have "execute_points goto_throttling env_interrupted_first
      params_full joints12 0 [point_a] 0 ergo_jr =
      execute_points goto_throttling env_interrupted_first params_full joints12 0
        ([point_a] @ [point_b]) 0 ergo_jr"
    using h1 by metis
  then have one: "execute_points goto_throttling env_interrupted_first
      params_full joints12 0 [point_a] 0 ergo_jr = ?stop"
    unfolding app step .
  have h5: "raised (execute_points goto_throttling env_interrupted_first params_full
      (joint_names trajectory_ab) 0 (points trajectory_ab) 0 ergo_jr)
      = Some ROSInterruptException"
    unfolding traj step by simp
  from inst h5 have "events (execute goto_throttling env_interrupted_first params_full
      trajectory_ab ergo_jr) =
        Loginfo (Executing (length (points trajectory_ab)))
          # events (execute_points goto_throttling env_interrupted_first params_full
                      (joint_names trajectory_ab) 0 (points trajectory_ab) 0 ergo_jr)
          @ [Logwarn Trajectory_aborted]"
    by blast
  then have ev: "events (execute goto_throttling env_interrupted_first params_full
      trajectory_ab ergo_jr) =
     [Loginfo (Executing 2),
      Goto_position [(''m1'', 10), (''m2'', 20)] (3 / 2), Sleep (999 / 1000),
      Logwarn Trajectory_aborted]"
    unfolding traj step by simp
  from h1 h2 step ev show ?thesis by blast
qed

text \<open>
  The abort is not logged when the shutdown is seen at a waypoint boundary: \<open>break\<close>
  leaves the \<open>try\<close> body without an exception, the \<open>else\<close> clause runs, and the log
  says \<open>Trajectory ended!\<close>.
\<close>

theorem shutdown_at_boundary_logs_ended:
  "is_shutdown env_shut_down 0 \<and>
   events (execute goto_throttling env_shut_down params_full trajectory_ab ergo_jr) =
     [Loginfo (Executing 2), Loginfo Trajectory_ended]"
  by (simp add: execute_def trajectory_ab_def env_shut_down_def Let_def)

section \<open>Start-up failures\<close>

text \<open>
  C8, as the code has it. If the configuration file cannot be opened, or it lacks
  \<open>publish_rate\<close>, or the ROS parameter \<open>description\<close> or \<open>description_file\<close> is not
  set, or the constructor of the robot raises, then the process ends with a status that
  is not zero: it does not serve.
\<close>

theorem startup_failures_exit_nonzero:
  assumes "config st = No_file \<or> (\<exists>ps. config st = Json ps \<and> ps ''publish_rate'' = None) \<or>
           description st = None \<or> description_file st = None \<or> (\<exists>e. adapter st = Inl e)"
  shows "\<exists>code. exit_status (main st) = Some code \<and> code \<noteq> 0"
  using assms
  by (auto simp: main_def init_def run_def split: option.splits sum.splits config_file.splits)

theorem startup_failures_exit_nonzero_witness:
  "config startup_no_file = No_file \<and> exit_status (main startup_no_file) = Some 1"
proof -
  have h: "config startup_no_file = No_file" by (simp add: startup_no_file_def)
  then have "config startup_no_file = No_file \<or>
      (\<exists>ps. config startup_no_file = Json ps \<and> ps ''publish_rate'' = None) \<or>
      description startup_no_file = None \<or> description_file startup_no_file = None \<or>
      (\<exists>e. adapter startup_no_file = Inl e)" by blast
  from startup_failures_exit_nonzero [OF this]
  obtain code where "exit_status (main startup_no_file) = Some code" and "code \<noteq> 0"
    by blast
  moreover have "exit_status (main startup_no_file) = Some 1"
    by (simp add: main_def init_def startup_no_file_def)
  ultimately show ?thesis using h by simp
qed

text \<open>
  A configuration file without \<open>time_margin\<close> does not stop the start-up: the node
  serves, and the key is first read by \<open>execute\<close>, which then raises \<open>KeyError\<close> in its
  thread.
\<close>

theorem startup_without_time_margin:
  "config startup_no_margin = Json params_no_margin \<and>
   params_no_margin ''time_margin'' = None \<and>
   exit_status (main startup_no_margin) = None \<and>
   raised (execute goto_throttling env_running params_no_margin trajectory_ab ergo_jr) =
     Some (KeyError ''time_margin'')"
  by (simp add: main_def init_def run_def startup_no_margin_def params_no_margin_def
        execute_def trajectory_ab_def env_running_def point_a_def Let_def)

end
